theory Spec2Isabelle
  imports Complex_Main "HOL-Library.Log_Nat" "HOL-Library.Multiset"
begin

section \<open>JavaScript values\<close>

text \<open>
  A request field is absent (\<open>undefined\<close>), \<open>null\<close>, or carries a value. A numeric
  field is taken to carry a JSON number, as it does when the body has a numeric literal
  and after the routes' sanitisers \<open>toInt\<close> and \<open>toFloat\<close>; the number is read
  as the rational that its decimal notation denotes, which is also what the database
  receives when the number is written into a query. Strings in numeric fields are
  outside the model. The status field carries a string; a date filter carries a point in
  time. A JavaScript number that results from a conversion is either \<open>NaN\<close> or finite.
\<close>

datatype 'a js = Undefined | Null | Val 'a

datatype jsnum = NaN | Fin rat

text \<open>Truthiness, as \<open>if (x)\<close>, \<open>!x\<close> and \<open>x || y\<close> test it.\<close>

fun truthy_num :: "rat js \<Rightarrow> bool" where
  "truthy_num (Val r) = (r \<noteq> 0)"
| "truthy_num Undefined = False"
| "truthy_num Null = False"

fun truthy_str :: "string js \<Rightarrow> bool" where
  "truthy_str (Val s) = (s \<noteq> [])"
| "truthy_str Undefined = False"
| "truthy_str Null = False"

text \<open>A date filter is a \<open>Date\<close> object or a non-empty date string: truthy when present.\<close>

fun truthy_date :: "int js \<Rightarrow> bool" where
  "truthy_date (Val t) = True"
| "truthy_date Undefined = False"
| "truthy_date Null = False"

text \<open>
  \<open>parseInt\<close> reads the decimal notation of a number and drops the fraction (towards
  zero); of \<open>undefined\<close> and \<open>null\<close> it is \<open>NaN\<close>. This is the function for the
  numbers that JavaScript prints without an exponent: zero and the magnitudes from
  \<open>1e-6\<close> up to, and without, \<open>1e21\<close>, which covers every id, page and limit of the
  database and the routes. Outside that range \<open>parseInt\<close> reads the leading digits of
  the exponent notation, which is left out. \<open>parseFloat\<close> of a number is the number.
\<close>

definition trunc :: "rat \<Rightarrow> int" where
  "trunc r = (if 0 \<le> r then floor r else ceiling r)"

fun parseInt :: "rat js \<Rightarrow> jsnum" where
  "parseInt (Val r) = Fin (of_int (trunc r))"
| "parseInt Undefined = NaN"
| "parseInt Null = NaN"

fun parseFloat :: "rat js \<Rightarrow> jsnum" where
  "parseFloat (Val r) = Fin r"
| "parseFloat Undefined = NaN"
| "parseFloat Null = NaN"

section \<open>Decimal columns and the numbers read from them\<close>

text \<open>
  A column \<open>DECIMAL(p, 2)\<close> keeps two decimal places: the database rounds what is
  written (half away from zero) and refuses a value that does not fit \<open>p\<close> digits.
\<close>

definition round2 :: "rat \<Rightarrow> rat" where
  "round2 r = sgn r * of_int (floor (\<bar>r\<bar> * 100 + 1 / 2)) / 100"

definition DECIMAL :: "nat \<Rightarrow> rat \<Rightarrow> rat option" where
  "DECIMAL p r = (let v = round2 r in if \<bar>v\<bar> < 10 ^ (p - 2) then Some v else None)"

text \<open>
  A decimal column is read back as a decimal string, and so is a sum of it;
  \<open>parseFloat\<close> of such a string is the nearest number of the double format
  (53 binary digits, ties to the even one). \<open>to_double\<close> is that rounding for the
  normal range of the format, which holds every value of the decimal columns. The sum of
  two numbers in JavaScript is the exact sum, rounded the same way.
\<close>

definition pow2 :: "int \<Rightarrow> rat" where
  "pow2 k = (if 0 \<le> k then 2 ^ nat k else 1 / 2 ^ nat (- k))"

definition log2_floor :: "rat \<Rightarrow> int" where
  "log2_floor a = (if 1 \<le> a then bitlen (floor a) - 1 else - bitlen (ceiling (1 / a) - 1))"

definition round_half_even :: "rat \<Rightarrow> int" where
  "round_half_even q =
     (let f = floor q; d = q - of_int f
      in if d < 1 / 2 then f else if 1 / 2 < d then f + 1 else if even f then f else f + 1)"

definition to_double :: "rat \<Rightarrow> rat" where
  "to_double r =
     (if r = 0 then 0
      else (let a = \<bar>r\<bar>; u = pow2 (log2_floor a - 52)
            in sgn r * of_int (round_half_even (a / u)) * u))"


section \<open>Constants (utils/constants.js)\<close>

definition ROLES_ADMIN_ID :: int where "ROLES_ADMIN_ID = 1"
definition ROLES_ADVISOR_ID :: int where "ROLES_ADVISOR_ID = 2"

definition PRODUCTS_CONSUMER_CREDIT_ID :: rat where "PRODUCTS_CONSUMER_CREDIT_ID = 1"
definition PRODUCTS_FREE_INVESTMENT_PAYROLL_ID :: rat where "PRODUCTS_FREE_INVESTMENT_PAYROLL_ID = 2"
definition PRODUCTS_CREDIT_CARD_ID :: rat where "PRODUCTS_CREDIT_CARD_ID = 3"

definition VALIDATION_AMOUNT_MIN :: rat where "VALIDATION_AMOUNT_MIN = 1 / 100"
definition VALIDATION_RATE_MIN :: rat where "VALIDATION_RATE_MIN = 0"
definition VALIDATION_RATE_MAX :: rat where "VALIDATION_RATE_MAX = 100"

text \<open>
  The module exports \<open>SALE_STATUSES\<close>. The sale service reads
  \<open>const { ROLES, PRODUCTS, SALE_STATUS } = require('../utils/constants')\<close>, a name the
  module does not export, so that \<open>SALE_STATUS\<close> is \<open>undefined\<close> in the service:
  \<open>None\<close> here. The statistics service reads \<open>SALE_STATUSES\<close>.
\<close>

record sale_statuses =
  OPEN :: string
  IN_PROCESS :: string
  FINISHED :: string

definition SALE_STATUSES :: sale_statuses where
  "SALE_STATUSES = \<lparr>OPEN = ''Abierto'', IN_PROCESS = ''En Proceso'', FINISHED = ''Finalizado''\<rparr>"

definition SALE_STATUS :: "sale_statuses option" where
  "SALE_STATUS = None"

section \<open>Errors (utils/errors.js, and those of the persistence library)\<close>

datatype error =
    ValidationError string
  | NotFoundError string
  | AuthorizationError string
  | TypeError
  | SequelizeValidationError
  | SequelizeForeignKeyConstraintError
  | SequelizeDatabaseError

datatype error_code =
    VALIDATION_ERROR | AUTHORIZATION_ERROR | NOT_FOUND | DATABASE_ERROR | SERVER_ERROR

text \<open>The error handler of the HTTP boundary: the code and status each error is sent with.\<close>

fun errorHandler :: "error \<Rightarrow> error_code \<times> nat" where
  "errorHandler (ValidationError m) = (VALIDATION_ERROR, 400)"
| "errorHandler (NotFoundError m) = (NOT_FOUND, 404)"
| "errorHandler (AuthorizationError m) = (AUTHORIZATION_ERROR, 403)"
| "errorHandler SequelizeValidationError = (VALIDATION_ERROR, 400)"
| "errorHandler SequelizeForeignKeyConstraintError = (VALIDATION_ERROR, 400)"
| "errorHandler SequelizeDatabaseError = (DATABASE_ERROR, 500)"
| "errorHandler TypeError = (SERVER_ERROR, 500)"

section \<open>The store\<close>

text \<open>
  A row of table \<open>ventas\<close> (models/Sale.js and its migration), the decimal columns
  with their exact value. The same record serves for a sale as a function returns it:
  there the decimal columns hold the doubles read from them, and the names joined in
  from the other tables are left out.
\<close>

record sale =
  sale_id :: int
  productoId :: int
  cupoSolicitado :: rat
  franquiciaId :: "int option"
  tasa :: "rat option"
  estado :: string
  usuarioCreadorId :: int
  usuarioActualizadorId :: int
  createdAt :: int
  updatedAt :: int

text \<open>
  The database: the ids of the product, franchise and user tables, the columns that
  table \<open>productos_tipos\<close> has in this database, the sales, the next auto-increment id
  of \<open>ventas\<close> and the time of the clock. \<open>tie_key\<close> is the rank by which the
  database engine yields rows that an \<open>ORDER BY\<close> clause leaves tied (smaller first):
  it belongs to the engine, not to the code, and nothing is assumed of it.
\<close>

record db =
  productos :: "int list"
  producto_columns :: "string list"
  franquicias :: "int list"
  usuarios :: "int list"
  ventas :: "sale list"
  next_id :: int
  now :: int
  tie_key :: "sale \<Rightarrow> int"

text \<open>
  The columns that the migration of the repository gives table \<open>productos_tipos\<close>
  (migrations/20250101000003-create-productos-tipos.js; models/Product.js declares the
  same).
\<close>

definition productos_tipos_columns :: "string list" where
  "productos_tipos_columns = [''id'', ''nombre'', ''createdAt'', ''updatedAt'']"

text \<open>
  An \<open>include\<close> of the product with a list of \<open>attributes\<close> selects these columns
  of \<open>productos_tipos\<close>; the database refuses a query that names a column the table
  does not have.
\<close>

definition include_producto :: "db \<Rightarrow> string list \<Rightarrow> bool" where
  "include_producto d attributes = list_all (\<lambda>a. a \<in> set (producto_columns d)) attributes"

text \<open>
  What the functions make of a row they have read: \<open>parseFloat\<close> of the amount, and of
  the rate unless it is \<open>null\<close> (a decimal string is truthy).
\<close>

definition format_sale :: "sale \<Rightarrow> sale" where
  "format_sale s = s\<lparr>cupoSolicitado := to_double (cupoSolicitado s),
                       tasa := (case tasa s of None \<Rightarrow> None | Some t \<Rightarrow> Some (to_double t))\<rparr>"

section \<open>Role-scoped queries (services/saleService.js)\<close>

record filters =
  f_productoId :: "rat js"
  f_estado :: "string js"
  f_startDate :: "int js"
  f_endDate :: "int js"
  f_usuarioCreadorId :: "rat js"

text \<open>The \<open>where\<close> object: a key that is not set is \<open>None\<close>.\<close>

record where_clause =
  w_usuarioCreadorId :: "jsnum option"
  w_productoId :: "jsnum option"
  w_estado :: "string option"
  w_createdAt_gte :: "int option"
  w_createdAt_lte :: "int option"

definition empty_where :: where_clause where
  "empty_where = \<lparr>w_usuarioCreadorId = None, w_productoId = None, w_estado = None,
     w_createdAt_gte = None, w_createdAt_lte = None\<rparr>"

definition buildWhereClause :: "int \<Rightarrow> int \<Rightarrow> filters \<Rightarrow> where_clause" where
  "buildWhereClause userRolId userId additionalFilters =
    (let w0 = empty_where;
         w1 = (if userRolId = ROLES_ADVISOR_ID
               then w0\<lparr>w_usuarioCreadorId := Some (Fin (of_int userId))\<rparr> else w0);
         w2 = (if truthy_num (f_productoId additionalFilters)
               then w1\<lparr>w_productoId := Some (parseInt (f_productoId additionalFilters))\<rparr>
               else w1);
         w3 = (case f_estado additionalFilters of
                 Val s \<Rightarrow> if s \<noteq> [] then w2\<lparr>w_estado := Some s\<rparr> else w2
               | _ \<Rightarrow> w2);
         w4 = (if truthy_date (f_startDate additionalFilters) \<or> truthy_date (f_endDate additionalFilters)
               then
                 (let a = (case f_startDate additionalFilters of
                             Val t \<Rightarrow> w3\<lparr>w_createdAt_gte := Some t\<rparr> | _ \<Rightarrow> w3)
                  in (case f_endDate additionalFilters of
                        Val t \<Rightarrow> a\<lparr>w_createdAt_lte := Some t\<rparr> | _ \<Rightarrow> a))
               else w3)
     in (if truthy_num (f_usuarioCreadorId additionalFilters) \<and> userRolId = ROLES_ADMIN_ID
         then w4\<lparr>w_usuarioCreadorId := Some (parseInt (f_usuarioCreadorId additionalFilters))\<rparr>
         else w4))"

text \<open>A row satisfies the \<open>where\<close> object when it satisfies every key that is set.\<close>

definition matches :: "where_clause \<Rightarrow> sale \<Rightarrow> bool" where
  "matches w s \<longleftrightarrow>
     (case w_usuarioCreadorId w of None \<Rightarrow> True | Some n \<Rightarrow> n = Fin (of_int (usuarioCreadorId s))) \<and>
     (case w_productoId w of None \<Rightarrow> True | Some n \<Rightarrow> n = Fin (of_int (productoId s))) \<and>
     (case w_estado w of None \<Rightarrow> True | Some e \<Rightarrow> estado s = e) \<and>
     (case w_createdAt_gte w of None \<Rightarrow> True | Some t \<Rightarrow> t \<le> createdAt s) \<and>
     (case w_createdAt_lte w of None \<Rightarrow> True | Some t \<Rightarrow> createdAt s \<le> t)"

text \<open>
  The \<open>order\<close> option of a query lists columns with a direction. The rows come back
  sorted by the listed columns, the first one most significant; the order of rows that
  agree on every listed column is the engine's (\<open>tie_key\<close>), since nothing else is
  asked of the database.
\<close>

datatype sale_column = Col_createdAt | Col_id

datatype direction = ASC | DESC

definition order_key :: "sale_column \<times> direction \<Rightarrow> sale \<Rightarrow> int" where
  "order_key cd s =
     (let v = (case fst cd of Col_createdAt \<Rightarrow> createdAt s | Col_id \<Rightarrow> sale_id s)
      in (case snd cd of ASC \<Rightarrow> v | DESC \<Rightarrow> - v))"

definition order_rows ::
  "(sale \<Rightarrow> int) \<Rightarrow> (sale_column \<times> direction) list \<Rightarrow> sale list \<Rightarrow> sale list" where
  "order_rows tie ord rows = foldr (\<lambda>cd acc. sort_key (order_key cd) acc) ord (sort_key tie rows)"

text \<open>
  \<open>Sale.findAndCountAll\<close>: the number of matching rows and the window of them that
  \<open>limit\<close> and \<open>offset\<close> select. The database refuses a negative or non-numeric
  limit or offset, and a product column that does not exist. The product, the creator
  and the creator's role of a sale exist by the foreign keys, so that the joins of the
  \<open>include\<close> option neither drop nor repeat a row.
\<close>

definition Sale_findAndCountAll ::
  "db \<Rightarrow> where_clause \<Rightarrow> string list \<Rightarrow> jsnum \<Rightarrow> jsnum \<Rightarrow> (sale_column \<times> direction) list
     \<Rightarrow> error + (nat \<times> sale list)" where
  "Sale_findAndCountAll d w producto_attributes limit_n offset_n ord =
     (if \<not> include_producto d producto_attributes then Inl SequelizeDatabaseError
      else
       (case limit_n of
          NaN \<Rightarrow> Inl SequelizeDatabaseError
        | Fin l \<Rightarrow>
           (case offset_n of
              NaN \<Rightarrow> Inl SequelizeDatabaseError
            | Fin k \<Rightarrow>
                if l < 0 \<or> k < 0 then Inl SequelizeDatabaseError
                else (let rows = filter (matches w) (ventas d)
                      in Inr (length rows,
                              take (nat (floor l))
                                (drop (nat (floor k)) (order_rows (tie_key d) ord rows)))))))"

text \<open>
  The pagination object holds numbers, or lacks a key (\<open>None\<close>), for which
  \<open>findAllSales\<close> takes page 1 and limit 10. The query includes the product with the
  attributes \<open>id\<close>, \<open>nombre\<close> and \<open>tipo\<close>. Of the result, the listed sales
  (\<open>formattedSales\<close>) and the total count are modelled.
\<close>

record pagination =
  page :: "rat option"
  limit :: "rat option"

record sales_page =
  sales :: "sale list"
  total :: nat

definition findAllSales :: "db \<Rightarrow> filters \<Rightarrow> int \<Rightarrow> int \<Rightarrow> pagination \<Rightarrow> error + sales_page" where
  "findAllSales d fs userRolId userId pg =
    (let page_v = (case page pg of None \<Rightarrow> 1 | Some v \<Rightarrow> v);
         limit_v = (case limit pg of None \<Rightarrow> 10 | Some v \<Rightarrow> v);
         whereClause = buildWhereClause userRolId userId fs;
         offset = (page_v - 1) * limit_v
     in (case Sale_findAndCountAll d whereClause [''id'', ''nombre'', ''tipo'']
               (parseInt (Val limit_v)) (parseInt (Val offset)) [(Col_createdAt, DESC)] of
           Inl e \<Rightarrow> Inl e
         | Inr (count_v, rows) \<Rightarrow> Inr \<lparr>sales = map format_sale rows, total = count_v\<rparr>))"

text \<open>
  \<open>Sale.sum\<close> adds the decimal column in the database and hands the sum over as a
  double; it is \<open>null\<close> when no row matches. \<open>result || 0\<close> then gives 0, as it does
  for a sum that is 0, and \<open>parseFloat\<close> of the number is the number.
\<close>

definition Sale_sum_cupoSolicitado :: "sale list \<Rightarrow> where_clause \<Rightarrow> rat option" where
  "Sale_sum_cupoSolicitado tbl w =
     (let rows = filter (matches w) tbl
      in if rows = [] then None else Some (to_double (sum_list (map cupoSolicitado rows))))"

definition calculateTotalAmount :: "db \<Rightarrow> int \<Rightarrow> int \<Rightarrow> filters \<Rightarrow> rat" where
  "calculateTotalAmount d userRolId userId fs =
    (let whereClause = buildWhereClause userRolId userId fs;
         result = Sale_sum_cupoSolicitado (ventas d) whereClause;
         total_v = (case result of None \<Rightarrow> 0 | Some r \<Rightarrow> if r \<noteq> 0 then r else 0)
     in total_v)"

section \<open>Writing sales (models/Sale.js, services/saleService.js)\<close>

record sale_data =
  p_productoId :: "rat js"
  p_cupoSolicitado :: "rat js"
  p_franquiciaId :: "rat js"
  p_tasa :: "rat js"
  p_estado :: "string js"

text \<open>\<open>Model.findByPk\<close> on a table of ids: is there a row with this primary key?\<close>

definition findByPk :: "int list \<Rightarrow> rat js \<Rightarrow> bool" where
  "findByPk ids k = (case k of Val r \<Rightarrow> r \<in> set (map of_int ids) | _ \<Rightarrow> False)"

definition Sale_findByPk :: "db \<Rightarrow> int \<Rightarrow> sale option" where
  "Sale_findByPk d i = find (\<lambda>s. sale_id s = i) (ventas d)"

text \<open>\<open>Sale.findByPk\<close> with an \<open>include\<close> of the product and its attributes.\<close>

definition Sale_findByPk_include :: "db \<Rightarrow> int \<Rightarrow> string list \<Rightarrow> error + sale option" where
  "Sale_findByPk_include d i producto_attributes =
     (if \<not> include_producto d producto_attributes then Inl SequelizeDatabaseError
      else Inr (Sale_findByPk d i))"

text \<open>
  The validators the model declares: \<open>cupoSolicitado\<close> has \<open>min: 0.01, isDecimal\<close>,
  \<open>tasa\<close> has \<open>min: 0, max: 100, isDecimal\<close> (a \<open>null\<close> rate is not validated).
  \<open>NaN\<close> is not a decimal.
\<close>

definition valid_cupoSolicitado :: "jsnum \<Rightarrow> bool" where
  "valid_cupoSolicitado v = (case v of NaN \<Rightarrow> False | Fin r \<Rightarrow> 1 / 100 \<le> r)"

definition valid_tasa :: "jsnum option \<Rightarrow> bool" where
  "valid_tasa v = (case v of None \<Rightarrow> True | Some NaN \<Rightarrow> False | Some (Fin r) \<Rightarrow> 0 \<le> r \<and> r \<le> 100)"

definition ENUM_estado :: "string list" where
  "ENUM_estado = [''Abierto'', ''En Proceso'', ''Finalizado'']"

definition as_int :: "jsnum \<Rightarrow> int option" where
  "as_int v = (case v of NaN \<Rightarrow> None
               | Fin r \<Rightarrow> if of_int (floor r) = r then Some (floor r) else None)"

text \<open>The object handed to \<open>Sale.create\<close>; \<open>None\<close> is \<open>null\<close>.\<close>

record sale_attrs =
  a_productoId :: jsnum
  a_cupoSolicitado :: jsnum
  a_franquiciaId :: "jsnum option"
  a_tasa :: "jsnum option"
  a_estado :: string
  a_usuarioCreadorId :: int
  a_usuarioActualizadorId :: int

text \<open>
  \<open>Sale.create\<close>: the model's validators run first, and nothing is sent to the
  database when they fail. The database refuses a value that is not of the column's type
  (an id that is no integer, a decimal that does not fit, a status outside the
  enumeration) and a foreign key without its row; a refused insert still consumes the
  id. Otherwise the row is appended with the next id, its decimals rounded to the
  columns, and both timestamps set to the clock.
\<close>

definition Sale_create :: "db \<Rightarrow> sale_attrs \<Rightarrow> (error + sale) \<times> db" where
  "Sale_create d a =
    (if \<not> valid_cupoSolicitado (a_cupoSolicitado a) \<or> \<not> valid_tasa (a_tasa a)
     then (Inl SequelizeValidationError, d)
     else
      (let refused = d\<lparr>next_id := next_id d + 1\<rparr>
       in
       (case (as_int (a_productoId a),
              (case a_cupoSolicitado a of NaN \<Rightarrow> None | Fin r \<Rightarrow> DECIMAL 15 r),
              (case a_franquiciaId a of None \<Rightarrow> Some None
               | Some v \<Rightarrow> map_option Some (as_int v)),
              (case a_tasa a of None \<Rightarrow> Some None | Some NaN \<Rightarrow> None
               | Some (Fin r) \<Rightarrow> map_option Some (DECIMAL 5 r))) of
          (Some pid, Some amount, Some fid, Some rate) \<Rightarrow>
            if a_estado a \<notin> set ENUM_estado then (Inl SequelizeDatabaseError, refused)
            else if pid \<notin> set (productos d)
                    \<or> (case fid of None \<Rightarrow> False | Some f \<Rightarrow> f \<notin> set (franquicias d))
                    \<or> a_usuarioCreadorId a \<notin> set (usuarios d)
                    \<or> a_usuarioActualizadorId a \<notin> set (usuarios d)
            then (Inl SequelizeForeignKeyConstraintError, refused)
            else
             (let row = \<lparr>sale_id = next_id d, productoId = pid, cupoSolicitado = amount,
                          franquiciaId = fid, tasa = rate, estado = a_estado a,
                          usuarioCreadorId = a_usuarioCreadorId a,
                          usuarioActualizadorId = a_usuarioActualizadorId a,
                          createdAt = now d, updatedAt = now d\<rparr>
              in (Inr row, d\<lparr>ventas := ventas d @ [row], next_id := next_id d + 1\<rparr>))
        | _ \<Rightarrow> (Inl SequelizeDatabaseError, refused))))"

text \<open>
  \<open>createNewSale\<close>. The default status is read as \<open>SALE_STATUS.OPEN\<close>, only when the
  payload has no truthy status: reading a property of \<open>undefined\<close> throws a
  \<open>TypeError\<close>, while the object for \<open>Sale.create\<close> is still being built. After
  \<open>Sale.create\<close> the function reads the sale again, including the product with the
  attributes \<open>id\<close>, \<open>nombre\<close> and \<open>tipo\<close>, and returns columns of what it has read;
  an error of this second query leaves the row in the table. Every error is thrown on
  to the caller.
\<close>

definition createNewSale :: "db \<Rightarrow> sale_data \<Rightarrow> int \<Rightarrow> (error + sale) \<times> db" where
  "createNewSale d saleData userId =
    (let productoId_v = p_productoId saleData; cupoSolicitado_v = p_cupoSolicitado saleData;
         franquiciaId_v = p_franquiciaId saleData; tasa_v = p_tasa saleData;
         estado_v = p_estado saleData
     in
     if \<not> truthy_num productoId_v \<or> \<not> truthy_num cupoSolicitado_v
     then (Inl (ValidationError ''Product and requested amount are required''), d)
     else if \<not> findByPk (productos d) productoId_v
     then (Inl (ValidationError ''Invalid product ID''), d)
     else if parseInt productoId_v = Fin PRODUCTS_CREDIT_CARD_ID \<and> \<not> truthy_num franquiciaId_v
     then (Inl (ValidationError ''Franchise is required for credit cards''), d)
     else if parseInt productoId_v \<noteq> Fin PRODUCTS_CREDIT_CARD_ID \<and> truthy_num franquiciaId_v
     then (Inl (ValidationError ''Franchise is only applicable to credit cards''), d)
     else if truthy_num franquiciaId_v \<and> \<not> findByPk (franquicias d) franquiciaId_v
     then (Inl (ValidationError ''Invalid franchise ID''), d)
     else
      (let productId = parseInt productoId_v
       in
       if (productId = Fin PRODUCTS_CONSUMER_CREDIT_ID
            \<or> productId = Fin PRODUCTS_FREE_INVESTMENT_PAYROLL_ID) \<and> \<not> truthy_num tasa_v
       then (Inl (ValidationError ''Rate is required for credits and payrolls''), d)
       else if productId \<noteq> Fin PRODUCTS_CONSUMER_CREDIT_ID
               \<and> productId \<noteq> Fin PRODUCTS_FREE_INVESTMENT_PAYROLL_ID
               \<and> tasa_v \<noteq> Undefined \<and> tasa_v \<noteq> Null
       then (Inl (ValidationError ''Rate is only applicable to credits and payrolls''), d)
       else
        (case (case estado_v of
                 Val s \<Rightarrow> if s \<noteq> [] then Some s else map_option OPEN SALE_STATUS
               | _ \<Rightarrow> map_option OPEN SALE_STATUS) of
           None \<Rightarrow> (Inl TypeError, d)
         | Some est \<Rightarrow>
            (case Sale_create d
               \<lparr>a_productoId = parseInt productoId_v,
                a_cupoSolicitado = parseFloat cupoSolicitado_v,
                a_franquiciaId = (if truthy_num franquiciaId_v
                                  then Some (parseInt franquiciaId_v) else None),
                a_tasa = (if truthy_num tasa_v then Some (parseFloat tasa_v) else None),
                a_estado = est,
                a_usuarioCreadorId = userId,
                a_usuarioActualizadorId = userId\<rparr> of
               (Inl e, d1) \<Rightarrow> (Inl e, d1)
             | (Inr sale, d1) \<Rightarrow>
                (case Sale_findByPk_include d1 (sale_id sale) [''id'', ''nombre'', ''tipo''] of
                   Inl e \<Rightarrow> (Inl e, d1)
                 | Inr None \<Rightarrow> (Inl TypeError, d1)
                 | Inr (Some createdSale) \<Rightarrow> (Inr (format_sale createdSale), d1))))))"

text \<open>
  The object \<open>updateData\<close> of \<open>updateSaleById\<close>: a key that has not been set is
  \<open>None\<close>; \<open>Some None\<close> is a key set to \<open>null\<close>.
\<close>

record update_data =
  u_productoId :: "jsnum option"
  u_cupoSolicitado :: "jsnum option"
  u_franquiciaId :: "jsnum option option"
  u_tasa :: "jsnum option option"
  u_estado :: "string option"
  u_usuarioActualizadorId :: "int option"

definition empty_update :: update_data where
  "empty_update = \<lparr>u_productoId = None, u_cupoSolicitado = None, u_franquiciaId = None,
     u_tasa = None, u_estado = None, u_usuarioActualizadorId = None\<rparr>"

definition no_keys :: "update_data \<Rightarrow> bool" where
  "no_keys u \<longleftrightarrow> u_productoId u = None \<and> u_cupoSolicitado u = None \<and> u_franquiciaId u = None
     \<and> u_tasa u = None \<and> u_estado u = None \<and> u_usuarioActualizadorId u = None"

definition and_then :: "error + 'a \<Rightarrow> ('a \<Rightarrow> error + 'b) \<Rightarrow> error + 'b" where
  "and_then m f = (case m of Inl e \<Rightarrow> Inl e | Inr x \<Rightarrow> f x)"

text \<open>
  The part of \<open>updateSaleById\<close> that builds \<open>updateData\<close> from the patch, one field
  after the other. Checking a supplied status starts by building the list
  \<open>[SALE_STATUS.OPEN, SALE_STATUS.IN_PROCESS, SALE_STATUS.FINISHED]\<close>.
\<close>

definition build_updateData :: "db \<Rightarrow> sale_data \<Rightarrow> error + update_data" where
  "build_updateData d saleData =
    and_then
      (if p_productoId saleData \<noteq> Undefined
       then (if \<not> findByPk (productos d) (p_productoId saleData)
             then Inl (ValidationError ''Invalid product ID'')
             else Inr (empty_update\<lparr>u_productoId := Some (parseInt (p_productoId saleData))\<rparr>))
       else Inr empty_update)
    (\<lambda>u1. and_then
      (Inr (if p_cupoSolicitado saleData \<noteq> Undefined
            then u1\<lparr>u_cupoSolicitado := Some (parseFloat (p_cupoSolicitado saleData))\<rparr>
            else u1))
    (\<lambda>u2. and_then
      (if p_franquiciaId saleData \<noteq> Undefined
       then (if p_franquiciaId saleData \<noteq> Null
             then (if \<not> findByPk (franquicias d) (p_franquiciaId saleData)
                   then Inl (ValidationError ''Invalid franchise ID'')
                   else Inr (u2\<lparr>u_franquiciaId := Some (Some (parseInt (p_franquiciaId saleData)))\<rparr>))
             else Inr (u2\<lparr>u_franquiciaId := Some None\<rparr>))
       else Inr u2)
    (\<lambda>u3. and_then
      (Inr (if p_tasa saleData \<noteq> Undefined
            then u3\<lparr>u_tasa := Some (if p_tasa saleData \<noteq> Null
                                      then Some (parseFloat (p_tasa saleData)) else None)\<rparr>
            else u3))
    (\<lambda>u4.
      (if p_estado saleData \<noteq> Undefined
       then (case SALE_STATUS of
               None \<Rightarrow> Inl TypeError
             | Some st \<Rightarrow>
                 (let validStatuses = [OPEN st, IN_PROCESS st, FINISHED st]
                  in (case p_estado saleData of
                        Val s \<Rightarrow> if s \<in> set validStatuses then Inr (u4\<lparr>u_estado := Some s\<rparr>)
                                 else Inl (ValidationError ''Invalid status'')
                      | _ \<Rightarrow> Inl (ValidationError ''Invalid status''))))
       else Inr u4)))))"

text \<open>
  \<open>sale.update(updateData)\<close>: the keys that are set overwrite the row's columns, after
  the validators of the columns written and the database's checks; decimals are rounded
  to the columns and \<open>updatedAt\<close> becomes the clock's time. The row keeps its place in
  the table.
\<close>

definition apply_update :: "sale \<Rightarrow> update_data \<Rightarrow> int \<Rightarrow> sale option" where
  "apply_update s u t =
    (case ((case u_productoId u of None \<Rightarrow> Some (productoId s) | Some v \<Rightarrow> as_int v),
           (case u_cupoSolicitado u of None \<Rightarrow> Some (cupoSolicitado s) | Some NaN \<Rightarrow> None
            | Some (Fin r) \<Rightarrow> DECIMAL 15 r),
           (case u_franquiciaId u of None \<Rightarrow> Some (franquiciaId s)
            | Some None \<Rightarrow> Some None
            | Some (Some v) \<Rightarrow> map_option Some (as_int v)),
           (case u_tasa u of None \<Rightarrow> Some (tasa s) | Some None \<Rightarrow> Some None
            | Some (Some NaN) \<Rightarrow> None
            | Some (Some (Fin r)) \<Rightarrow> map_option Some (DECIMAL 5 r))) of
       (Some pid, Some amount, Some fid, Some rate) \<Rightarrow>
          Some (s\<lparr>productoId := pid,
                  cupoSolicitado := amount,
                  franquiciaId := fid,
                  tasa := rate,
                  estado := (case u_estado u of None \<Rightarrow> estado s | Some e \<Rightarrow> e),
                  usuarioActualizadorId := (case u_usuarioActualizadorId u of
                                              None \<Rightarrow> usuarioActualizadorId s | Some i \<Rightarrow> i),
                  updatedAt := t\<rparr>)
     | _ \<Rightarrow> None)"

definition Sale_update :: "db \<Rightarrow> sale \<Rightarrow> update_data \<Rightarrow> (error + sale) \<times> db" where
  "Sale_update d s u =
    (if (case u_cupoSolicitado u of None \<Rightarrow> False | Some v \<Rightarrow> \<not> valid_cupoSolicitado v)
        \<or> (case u_tasa u of None \<Rightarrow> False | Some v \<Rightarrow> \<not> valid_tasa v)
     then (Inl SequelizeValidationError, d)
     else
      (case apply_update s u (now d) of
         None \<Rightarrow> (Inl SequelizeDatabaseError, d)
       | Some row \<Rightarrow>
          if estado row \<notin> set ENUM_estado then (Inl SequelizeDatabaseError, d)
          else if productoId row \<notin> set (productos d)
                  \<or> (case franquiciaId row of None \<Rightarrow> False | Some f \<Rightarrow> f \<notin> set (franquicias d))
                  \<or> usuarioActualizadorId row \<notin> set (usuarios d)
          then (Inl SequelizeForeignKeyConstraintError, d)
          else (Inr row,
                d\<lparr>ventas := map (\<lambda>x. if sale_id x = sale_id s then row else x) (ventas d)\<rparr>)))"

text \<open>
  \<open>updateSaleById\<close>. After \<open>sale.update\<close> the function reads the sale again,
  including the product with the attributes \<open>id\<close>, \<open>nombre\<close> and \<open>tipo\<close>, and returns
  columns of what it has read; an error of this second query leaves the update in the
  table.
\<close>

definition updateSaleById ::
  "db \<Rightarrow> int \<Rightarrow> sale_data \<Rightarrow> int \<Rightarrow> int \<Rightarrow> (error + sale) \<times> db" where
  "updateSaleById d i saleData userRolId userId =
    (case Sale_findByPk d i of
       None \<Rightarrow> (Inl (NotFoundError ''Sale not found''), d)
     | Some s \<Rightarrow>
        if userRolId = ROLES_ADVISOR_ID \<and> usuarioCreadorId s \<noteq> userId
        then (Inl (AuthorizationError ''You can only update your own sales''), d)
        else
         (case build_updateData d saleData of
            Inl e \<Rightarrow> (Inl e, d)
          | Inr updateData \<Rightarrow>
             if no_keys updateData
             then (Inl (ValidationError ''No fields to update''), d)
             else
              (case Sale_update d s (updateData\<lparr>u_usuarioActualizadorId := Some userId\<rparr>) of
                 (Inl e, d1) \<Rightarrow> (Inl e, d1)
               | (Inr written, d1) \<Rightarrow>
                  (case Sale_findByPk_include d1 i [''id'', ''nombre'', ''tipo''] of
                     Inl e \<Rightarrow> (Inl e, d1)
                   | Inr None \<Rightarrow> (Inl TypeError, d1)
                   | Inr (Some updatedSale) \<Rightarrow> (Inr (format_sale updatedSale), d1)))))"

text \<open>\<open>sale.destroy()\<close> removes the row; no table refers to \<open>ventas\<close>.\<close>

definition deleteSaleById :: "db \<Rightarrow> int \<Rightarrow> int \<Rightarrow> int \<Rightarrow> (error + bool) \<times> db" where
  "deleteSaleById d i userRolId userId =
    (case Sale_findByPk d i of
       None \<Rightarrow> (Inl (NotFoundError ''Sale not found''), d)
     | Some s \<Rightarrow>
        if userRolId = ROLES_ADVISOR_ID \<and> usuarioCreadorId s \<noteq> userId
        then (Inl (AuthorizationError ''You can only delete your own sales''), d)
        else (Inr True, d\<lparr>ventas := filter (\<lambda>x. sale_id x \<noteq> sale_id s) (ventas d)\<rparr>))"

section \<open>Request validation of sale creation (middleware/validationMiddleware.js, routes/saleRoutes.js)\<close>

text \<open>
  The validators see a field as a string: \<open>undefined\<close> and \<open>null\<close> are the empty
  string, a number is its decimal notation.
\<close>

definition notEmpty :: "rat js \<Rightarrow> bool" where
  "notEmpty v = (case v of Val r \<Rightarrow> True | _ \<Rightarrow> False)"

definition isInt_min :: "rat \<Rightarrow> rat js \<Rightarrow> bool" where
  "isInt_min lo v = (case v of Val r \<Rightarrow> of_int (floor r) = r \<and> lo \<le> r | _ \<Rightarrow> False)"

definition isFloat_range :: "rat \<Rightarrow> rat option \<Rightarrow> rat js \<Rightarrow> bool" where
  "isFloat_range lo hi v =
     (case v of Val r \<Rightarrow> lo \<le> r \<and> (case hi of None \<Rightarrow> True | Some h \<Rightarrow> r \<le> h) | _ \<Rightarrow> False)"

text \<open>
  \<open>validateSaleCreate\<close>: each chain checks one field; the chains of \<open>franquiciaId\<close>
  and \<open>tasa\<close> run only under their \<open>.if\<close> condition on the product; any failure makes
  \<open>handleValidationErrors\<close> throw. The sanitisers leave an accepted number as it is.
\<close>

definition validateSaleCreate :: "sale_data \<Rightarrow> error + sale_data" where
  "validateSaleCreate body =
    (let ok_productoId = (notEmpty (p_productoId body) \<and> isInt_min 1 (p_productoId body));
         ok_cupoSolicitado = (notEmpty (p_cupoSolicitado body)
            \<and> isFloat_range VALIDATION_AMOUNT_MIN None (p_cupoSolicitado body));
         ok_franquiciaId =
           (if parseInt (p_productoId body) = Fin PRODUCTS_CREDIT_CARD_ID
            then notEmpty (p_franquiciaId body) \<and> isInt_min 1 (p_franquiciaId body)
            else True);
         ok_tasa =
           (if parseInt (p_productoId body) = Fin PRODUCTS_CONSUMER_CREDIT_ID
               \<or> parseInt (p_productoId body) = Fin PRODUCTS_FREE_INVESTMENT_PAYROLL_ID
            then notEmpty (p_tasa body)
                 \<and> isFloat_range VALIDATION_RATE_MIN (Some VALIDATION_RATE_MAX) (p_tasa body)
            else True);
         ok_estado = (case p_estado body of
                        Undefined \<Rightarrow> True
                      | Null \<Rightarrow> False
                      | Val s \<Rightarrow> s \<in> set [''Abierto'', ''En Proceso'', ''Finalizado''])
     in if ok_productoId \<and> ok_cupoSolicitado \<and> ok_franquiciaId \<and> ok_tasa \<and> ok_estado
        then Inr body
        else Inl (ValidationError ''Validation failed''))"

record current_user =
  cu_id :: int
  cu_rolId :: int

text \<open>\<open>POST /api/sales\<close>: \<open>validateSaleCreate\<close>, then the controller's \<open>createSale\<close>.\<close>

definition POST_sales :: "db \<Rightarrow> sale_data \<Rightarrow> current_user \<Rightarrow> (error + sale) \<times> db" where
  "POST_sales d body currentUser =
    (case validateSaleCreate body of
       Inl e \<Rightarrow> (Inl e, d)
     | Inr b \<Rightarrow> createNewSale d b (cu_id currentUser))"

section \<open>Deleting a user (controllers/userController.js, services/userService.js)\<close>

text \<open>
  \<open>user.destroy()\<close> is refused by the database while a sale refers to the user (the
  foreign keys of \<open>ventas\<close> are \<open>ON DELETE RESTRICT\<close>).
\<close>

definition deleteUserById :: "db \<Rightarrow> jsnum \<Rightarrow> (error + bool) \<times> db" where
  "deleteUserById d i =
    (case as_int i of
       None \<Rightarrow> (Inl (NotFoundError ''User not found''), d)
     | Some uid \<Rightarrow>
        if uid \<notin> set (usuarios d) then (Inl (NotFoundError ''User not found''), d)
        else if list_ex (\<lambda>s. usuarioCreadorId s = uid \<or> usuarioActualizadorId s = uid) (ventas d)
        then (Inl SequelizeForeignKeyConstraintError, d)
        else (Inr True, d\<lparr>usuarios := removeAll uid (usuarios d)\<rparr>))"

definition deleteUser :: "db \<Rightarrow> rat js \<Rightarrow> current_user \<Rightarrow> (error + unit) \<times> db" where
  "deleteUser d i currentUser =
    (if parseInt i = Fin (of_int (cu_id currentUser))
     then (Inl (ValidationError ''You cannot delete your own account''), d)
     else (case deleteUserById d (parseInt i) of
             (Inl e, d') \<Rightarrow> (Inl e, d')
           | (Inr ok, d') \<Rightarrow> (Inr (), d')))"

section \<open>What the specification asks, in its own words\<close>

text \<open>
  Written from the specification, to compare with what the code computes. The order of
  a list: creation time descending, ties broken by id descending.
\<close>

definition ordered_createdAt_id_desc :: "sale list \<Rightarrow> bool" where
  "ordered_createdAt_id_desc xs =
     sorted_wrt (\<lambda>a b. createdAt b < createdAt a
                    \<or> (createdAt a = createdAt b \<and> sale_id b < sale_id a)) xs"



section \<open>Example data\<close>

text \<open>
  One administrator (user 1) and two advisors (users 2 and 3). Advisor 2 has a consumer
  credit of 5,000,000 at 15.5 percent, advisor 3 a credit card of 2,000,000 with
  franchise 2; both sales were created at the same time. In \<open>example_db\<close> the product
  table has the column \<open>tipo\<close> that the queries of the sale service select, and the
  engine yields tied rows with the larger id first. \<open>migrated_db\<close> holds the same data
  on the schema that the repository's migration creates. \<open>dimes_db\<close> is
  \<open>example_db\<close> with the amounts 0.10 and 0.20.
\<close>

definition sale_A :: sale where
  "sale_A = \<lparr>sale_id = 1, productoId = 1, cupoSolicitado = 5000000, franquiciaId = None,
     tasa = Some (31 / 2), estado = ''Abierto'', usuarioCreadorId = 2,
     usuarioActualizadorId = 2, createdAt = 100, updatedAt = 100\<rparr>"

definition sale_B :: sale where
  "sale_B = \<lparr>sale_id = 2, productoId = 3, cupoSolicitado = 2000000, franquiciaId = Some 2,
     tasa = None, estado = ''Abierto'', usuarioCreadorId = 3,
     usuarioActualizadorId = 3, createdAt = 100, updatedAt = 100\<rparr>"

definition example_db :: db where
  "example_db = \<lparr>productos = [1, 2, 3],
     producto_columns = [''id'', ''nombre'', ''tipo'', ''createdAt'', ''updatedAt''],
     franquicias = [1, 2, 3], usuarios = [1, 2, 3],
     ventas = [sale_A, sale_B], next_id = 3, now = 200,
     tie_key = (\<lambda>s. - sale_id s)\<rparr>"

definition migrated_db :: db where
  "migrated_db = example_db\<lparr>producto_columns := productos_tipos_columns\<rparr>"

definition dimes_db :: db where
  "dimes_db = example_db\<lparr>ventas := [sale_A\<lparr>cupoSolicitado := 1 / 10\<rparr>,
                                      sale_B\<lparr>cupoSolicitado := 1 / 5\<rparr>]\<rparr>"

definition no_filters :: filters where
  "no_filters = \<lparr>f_productoId = Undefined, f_estado = Undefined, f_startDate = Undefined,
     f_endDate = Undefined, f_usuarioCreadorId = Undefined\<rparr>"

definition default_pagination :: pagination where
  "default_pagination = \<lparr>page = None, limit = None\<rparr>"

definition empty_patch :: sale_data where
  "empty_patch = \<lparr>p_productoId = Undefined, p_cupoSolicitado = Undefined,
     p_franquiciaId = Undefined, p_tasa = Undefined, p_estado = Undefined\<rparr>"

text \<open>
  A creation payload for a product with a rate, with every other field valid, and one for
  a credit card of franchise 2 that leaves the status out.
\<close>

definition rate_payload :: "rat \<Rightarrow> rat \<Rightarrow> sale_data" where
  "rate_payload p r = \<lparr>p_productoId = Val p, p_cupoSolicitado = Val 1000,
     p_franquiciaId = Undefined, p_tasa = Val r, p_estado = Val ''Abierto''\<rparr>"

definition card_payload :: sale_data where
  "card_payload = \<lparr>p_productoId = Val 3, p_cupoSolicitado = Val 1000,
     p_franquiciaId = Val 2, p_tasa = Undefined, p_estado = Undefined\<rparr>"

lemmas example_defs = example_db_def migrated_db_def dimes_db_def sale_A_def sale_B_def
  no_filters_def default_pagination_def empty_patch_def rate_payload_def card_payload_def
  productos_tipos_columns_def

lemmas write_defs = createNewSale_def Sale_create_def updateSaleById_def Sale_update_def
  apply_update_def build_updateData_def and_then_def deleteSaleById_def Sale_findByPk_def
  Sale_findByPk_include_def include_producto_def format_sale_def
  findByPk_def valid_cupoSolicitado_def valid_tasa_def as_int_def ENUM_estado_def
  no_keys_def empty_update_def SALE_STATUS_def trunc_def Let_def
  PRODUCTS_CONSUMER_CREDIT_ID_def PRODUCTS_FREE_INVESTMENT_PAYROLL_ID_def
  PRODUCTS_CREDIT_CARD_ID_def ROLES_ADMIN_ID_def ROLES_ADVISOR_ID_def

lemmas request_defs = POST_sales_def validateSaleCreate_def notEmpty_def isInt_min_def
  isFloat_range_def VALIDATION_AMOUNT_MIN_def VALIDATION_RATE_MIN_def VALIDATION_RATE_MAX_def

lemmas query_defs = findAllSales_def Sale_findAndCountAll_def buildWhereClause_def
  calculateTotalAmount_def Sale_sum_cupoSolicitado_def matches_def empty_where_def
  order_rows_def order_key_def trunc_def ROLES_ADMIN_ID_def ROLES_ADVISOR_ID_def
  include_producto_def format_sale_def

section \<open>Numbers of the examples\<close>


lemma to_double_examples:
  "to_double 5000000 = 5000000" "to_double 2000000 = 2000000" "to_double 6000000 = 6000000"
  "to_double (31 / 2) = 31 / 2" "to_double 1000 = 1000" "to_double 100 = 100"
  by code_simp+


lemma DECIMAL_examples:
  "DECIMAL 15 1000 = Some 1000" "DECIMAL 15 6000000 = Some 6000000" "DECIMAL 5 100 = Some 100"
  by code_simp+


section \<open>Scoping of reads\<close>

lemma trunc_of_int: "trunc (of_int n) = n"
  by (simp add: trunc_def)

lemma buildWhereClause_advisor:
  "w_usuarioCreadorId (buildWhereClause ROLES_ADVISOR_ID userId fs) = Some (Fin (of_int userId))"
  by (simp add: buildWhereClause_def Let_def ROLES_ADVISOR_ID_def ROLES_ADMIN_ID_def
      empty_where_def split: js.split)

lemma matches_advisor:
  "matches (buildWhereClause ROLES_ADVISOR_ID userId fs) s \<Longrightarrow> usuarioCreadorId s = userId"
  using buildWhereClause_advisor [of userId fs] by (simp add: matches_def)

lemma set_order_rows: "set (order_rows tie ord rows) = set rows"
  unfolding order_rows_def by (induction ord) simp_all



lemma format_sale_frame:
  "usuarioCreadorId (format_sale s) = usuarioCreadorId s" "sale_id (format_sale s) = sale_id s"
  "createdAt (format_sale s) = createdAt s"
  by (simp_all add: format_sale_def)

lemma findAllSales_window:
  assumes "findAllSales d fs userRolId userId pg = Inr r"
  obtains l k where
    "sales r = map format_sale (take l (drop k (order_rows (tie_key d) [(Col_createdAt, DESC)]
          (filter (matches (buildWhereClause userRolId userId fs)) (ventas d)))))"
  using assms
  by (auto simp: findAllSales_def Sale_findAndCountAll_def Let_def
      split: sum.splits jsnum.splits if_splits)

lemma findAllSales_rows:
  assumes "findAllSales d fs userRolId userId pg = Inr r" and "s \<in> set (sales r)"
  shows "\<exists>row \<in> set (ventas d). s = format_sale row
           \<and> matches (buildWhereClause userRolId userId fs) row"
proof -
  from assms(1) obtain l k where
    r: "sales r = map format_sale (take l (drop k (order_rows (tie_key d) [(Col_createdAt, DESC)]
          (filter (matches (buildWhereClause userRolId userId fs)) (ventas d)))))"
    by (rule findAllSales_window)
  from assms(2) obtain row where row: "s = format_sale row"
    "row \<in> set (take l (drop k (order_rows (tie_key d) [(Col_createdAt, DESC)]
          (filter (matches (buildWhereClause userRolId userId fs)) (ventas d)))))"
    unfolding r by auto
  from row(2) have "row \<in> set (order_rows (tie_key d) [(Col_createdAt, DESC)]
          (filter (matches (buildWhereClause userRolId userId fs)) (ventas d)))"
    by (meson in_set_dropD in_set_takeD)
  then show ?thesis using row(1) by (auto simp: set_order_rows)
qed

lemma filter_matches_own:
  "filter (\<lambda>s. usuarioCreadorId s = U \<and> matches (buildWhereClause ROLES_ADVISOR_ID U fs) s) xs
     = filter (matches (buildWhereClause ROLES_ADVISOR_ID U fs)) xs"
proof -
  have "\<And>s. (usuarioCreadorId s = U \<and> matches (buildWhereClause ROLES_ADVISOR_ID U fs) s)
      = matches (buildWhereClause ROLES_ADVISOR_ID U fs) s"
    using matches_advisor by blast
  then show ?thesis by simp
qed

text \<open>
  Claim C1. For a caller with the advisor role and user id \<open>U\<close>, whatever the filters
  (a \<open>usuarioCreadorId\<close> filter included): every sale that \<open>findAllSales\<close> returns was
  created by \<open>U\<close>; and the list as well as the total of \<open>calculateTotalAmount\<close> are
  what they would be if the table held the sales of \<open>U\<close> only.
\<close>

theorem advisor_scope:
  "(findAllSales d fs ROLES_ADVISOR_ID U pg = Inr r
      \<longrightarrow> (\<forall>s \<in> set (sales r). usuarioCreadorId s = U))
   \<and> findAllSales (d\<lparr>ventas := filter (\<lambda>s. usuarioCreadorId s = U) (ventas d)\<rparr>)
         fs ROLES_ADVISOR_ID U pg
       = findAllSales d fs ROLES_ADVISOR_ID U pg
   \<and> calculateTotalAmount (d\<lparr>ventas := filter (\<lambda>s. usuarioCreadorId s = U) (ventas d)\<rparr>)
         ROLES_ADVISOR_ID U fs
       = calculateTotalAmount d ROLES_ADVISOR_ID U fs"
proof (intro conjI impI ballI)
  fix s assume "findAllSales d fs ROLES_ADVISOR_ID U pg = Inr r" "s \<in> set (sales r)"
  then obtain row where "s = format_sale row"
    "matches (buildWhereClause ROLES_ADVISOR_ID U fs) row"
    using findAllSales_rows by blast
  then show "usuarioCreadorId s = U"
    using matches_advisor by (simp add: format_sale_frame)
next
  show "findAllSales (d\<lparr>ventas := filter (\<lambda>s. usuarioCreadorId s = U) (ventas d)\<rparr>)
          fs ROLES_ADVISOR_ID U pg
       = findAllSales d fs ROLES_ADVISOR_ID U pg"
    by (simp add: findAllSales_def Sale_findAndCountAll_def include_producto_def Let_def
        filter_matches_own)
next
  show "calculateTotalAmount (d\<lparr>ventas := filter (\<lambda>s. usuarioCreadorId s = U) (ventas d)\<rparr>)
          ROLES_ADVISOR_ID U fs
       = calculateTotalAmount d ROLES_ADVISOR_ID U fs"
    by (simp add: calculateTotalAmount_def Sale_sum_cupoSolicitado_def Let_def
        filter_matches_own)
qed

text \<open>Advisor 2 asks for the sales of advisor 3 and gets the own sale only.\<close>

theorem advisor_scope_witness:
  "findAllSales example_db (no_filters\<lparr>f_usuarioCreadorId := Val 3\<rparr>) ROLES_ADVISOR_ID 2
       default_pagination = Inr \<lparr>sales = [sale_A], total = 1\<rparr>
   \<and> usuarioCreadorId sale_A = 2
   \<and> calculateTotalAmount example_db ROLES_ADVISOR_ID 2 (no_filters\<lparr>f_usuarioCreadorId := Val 3\<rparr>)
       = 5000000"
proof -
  have h: "findAllSales example_db (no_filters\<lparr>f_usuarioCreadorId := Val 3\<rparr>) ROLES_ADVISOR_ID 2
       default_pagination = Inr \<lparr>sales = [sale_A], total = 1\<rparr>"
    by (simp add: query_defs example_defs to_double_examples)
  have t: "calculateTotalAmount example_db ROLES_ADVISOR_ID 2
       (no_filters\<lparr>f_usuarioCreadorId := Val 3\<rparr>) = 5000000"
    by (simp add: query_defs example_defs to_double_examples)
  show ?thesis
    using h t advisor_scope [of example_db "no_filters\<lparr>f_usuarioCreadorId := Val 3\<rparr>" 2
        default_pagination "\<lparr>sales = [sale_A], total = 1\<rparr>"]
    by simp
qed

section \<open>The total amount and the list\<close>










section \<open>The order of a list\<close>

text \<open>
  Claim C9 is left open. What \<open>findAllSales\<close> asks of the database is
  \<open>createdAt DESC\<close> and nothing else, and the list it returns is in that order. The
  order among sales created at the same time is the engine's: with an engine that
  yields the larger id first the list is ordered as the specification says, with one
  that yields the smaller id first it is not, and the code decides for neither.
\<close>

lemma sorted_order_rows_createdAt:
  "sorted_wrt (\<lambda>a b. createdAt b \<le> createdAt a) (order_rows tie [(Col_createdAt, DESC)] rows)"
proof -
  have "sorted (map (order_key (Col_createdAt, DESC))
          (sort_key (order_key (Col_createdAt, DESC)) (sort_key tie rows)))"
    by (rule sorted_sort_key)
  then show ?thesis
    by (simp add: order_rows_def sorted_map order_key_def)
qed

lemma findAllSales_sorted_by_createdAt:
  assumes "findAllSales d fs userRolId userId pg = Inr r"
  shows "sorted_wrt (\<lambda>a b. createdAt b \<le> createdAt a) (sales r)"
proof -
  from assms obtain l k where
    r: "sales r = map format_sale (take l (drop k (order_rows (tie_key d) [(Col_createdAt, DESC)]
          (filter (matches (buildWhereClause userRolId userId fs)) (ventas d)))))"
    by (rule findAllSales_window)
  have "sorted_wrt (\<lambda>a b. createdAt b \<le> createdAt a)
      (take l (drop k (order_rows (tie_key d) [(Col_createdAt, DESC)]
          (filter (matches (buildWhereClause userRolId userId fs)) (ventas d)))))"
    by (intro sorted_wrt_take sorted_wrt_drop sorted_order_rows_createdAt)
  then show ?thesis unfolding r
    by (simp add: sorted_wrt_map format_sale_frame)
qed

lemma tie_order_is_the_engines:
  "findAllSales example_db no_filters ROLES_ADMIN_ID 1 default_pagination
       = Inr \<lparr>sales = [sale_B, sale_A], total = 2\<rparr>
   \<and> ordered_createdAt_id_desc [sale_B, sale_A]
   \<and> findAllSales (example_db\<lparr>tie_key := sale_id\<rparr>) no_filters ROLES_ADMIN_ID 1 default_pagination
       = Inr \<lparr>sales = [sale_A, sale_B], total = 2\<rparr>
   \<and> \<not> ordered_createdAt_id_desc [sale_A, sale_B]"
  by (simp add: query_defs example_defs to_double_examples ordered_createdAt_id_desc_def)


section \<open>Who created and who last wrote a sale\<close>







lemma Sale_create_cases:
  "Sale_create d a = (res, d') \<Longrightarrow>
     ventas d' = ventas d
     \<or> (\<exists>s. res = Inr s \<and> ventas d' = ventas d @ [s]
           \<and> usuarioCreadorId s = a_usuarioCreadorId a
           \<and> usuarioActualizadorId s = a_usuarioActualizadorId a)"
  by (auto simp: Sale_create_def Let_def split: if_splits option.splits prod.splits)





section \<open>Sales of another advisor, and sales that do not exist\<close>

text \<open>
  Claim C6. When no sale has the id, \<open>updateSaleById\<close> and \<open>deleteSaleById\<close> fail
  with \<open>NotFoundError\<close>. When the sale exists and was created by somebody else, they
  fail for an advisor with \<open>AuthorizationError\<close>. The store is returned as it was.
\<close>

theorem foreign_sale_refused:
  "(Sale_findByPk d i = None \<longrightarrow>
      updateSaleById d i patch userRolId U = (Inl (NotFoundError ''Sale not found''), d)
      \<and> deleteSaleById d i userRolId U = (Inl (NotFoundError ''Sale not found''), d))
   \<and> (Sale_findByPk d i = Some s \<and> usuarioCreadorId s \<noteq> U \<longrightarrow>
      updateSaleById d i patch ROLES_ADVISOR_ID U
        = (Inl (AuthorizationError ''You can only update your own sales''), d)
      \<and> deleteSaleById d i ROLES_ADVISOR_ID U
        = (Inl (AuthorizationError ''You can only delete your own sales''), d))"
  by (simp add: updateSaleById_def deleteSaleById_def)

theorem foreign_sale_refused_witness:
  "Sale_findByPk example_db 7 = None
   \<and> updateSaleById example_db 7 (empty_patch\<lparr>p_cupoSolicitado := Val 1\<rparr>) ROLES_ADVISOR_ID 2
       = (Inl (NotFoundError ''Sale not found''), example_db)
   \<and> deleteSaleById example_db 7 ROLES_ADVISOR_ID 2
       = (Inl (NotFoundError ''Sale not found''), example_db)
   \<and> Sale_findByPk example_db 2 = Some sale_B \<and> usuarioCreadorId sale_B \<noteq> 2
   \<and> updateSaleById example_db 2 (empty_patch\<lparr>p_cupoSolicitado := Val 1\<rparr>) ROLES_ADVISOR_ID 2
       = (Inl (AuthorizationError ''You can only update your own sales''), example_db)
   \<and> deleteSaleById example_db 2 ROLES_ADVISOR_ID 2
       = (Inl (AuthorizationError ''You can only delete your own sales''), example_db)
   \<and> errorHandler (AuthorizationError ''You can only update your own sales'')
       = (AUTHORIZATION_ERROR, 403)"
proof -
  have n: "Sale_findByPk example_db 7 = None"
    by (simp add: Sale_findByPk_def example_defs)
  have f: "Sale_findByPk example_db 2 = Some sale_B"
    by (simp add: Sale_findByPk_def example_defs)
  have o: "usuarioCreadorId sale_B \<noteq> 2" by (simp add: example_defs)
  show ?thesis
    using n f o
      foreign_sale_refused [of example_db 7 "empty_patch\<lparr>p_cupoSolicitado := Val 1\<rparr>"
        ROLES_ADVISOR_ID 2 sale_B]
      foreign_sale_refused [of example_db 2 "empty_patch\<lparr>p_cupoSolicitado := Val 1\<rparr>"
        ROLES_ADVISOR_ID 2 sale_B]
    by simp
qed

section \<open>An update without fields\<close>

lemma build_updateData_empty: "build_updateData d empty_patch = Inr empty_update"
  by (simp add: build_updateData_def and_then_def empty_patch_def)

text \<open>
  Claim C10. On an existing sale that the caller may update, a patch in which none of
  \<open>productoId\<close>, \<open>cupoSolicitado\<close>, \<open>franquiciaId\<close>, \<open>tasa\<close>, \<open>estado\<close> is
  present makes \<open>updateSaleById\<close> fail with the \<open>ValidationError\<close>
  \<open>No fields to update\<close>; the store, and with it the sale's updater and
  \<open>updatedAt\<close>, is returned as it was.
\<close>

theorem update_without_fields:
  assumes "Sale_findByPk d i = Some s"
    and "userRolId = ROLES_ADVISOR_ID \<longrightarrow> usuarioCreadorId s = userId"
  shows "updateSaleById d i empty_patch userRolId userId
     = (Inl (ValidationError ''No fields to update''), d)"
  using assms
  by (auto simp add: updateSaleById_def build_updateData_empty no_keys_def empty_update_def)

theorem update_without_fields_witness:
  "Sale_findByPk example_db 1 = Some sale_A
   \<and> usuarioCreadorId sale_A = 2
   \<and> updateSaleById example_db 1 empty_patch ROLES_ADVISOR_ID 2
       = (Inl (ValidationError ''No fields to update''), example_db)
   \<and> updateSaleById example_db 2 empty_patch ROLES_ADMIN_ID 1
       = (Inl (ValidationError ''No fields to update''), example_db)"
proof -
  have a: "Sale_findByPk example_db 1 = Some sale_A"
    by (simp add: Sale_findByPk_def example_defs)
  have b: "Sale_findByPk example_db 2 = Some sale_B"
    by (simp add: Sale_findByPk_def example_defs)
  have c: "usuarioCreadorId sale_A = 2" by (simp add: example_defs)
  have r1: "ROLES_ADVISOR_ID = ROLES_ADVISOR_ID \<longrightarrow> usuarioCreadorId sale_A = 2"
    using c by simp
  have r2: "ROLES_ADMIN_ID = ROLES_ADVISOR_ID \<longrightarrow> usuarioCreadorId sale_B = 1"
    by (simp add: ROLES_ADMIN_ID_def ROLES_ADVISOR_ID_def)
  show ?thesis
    using a c update_without_fields [OF a r1] update_without_fields [OF b r2] by simp
qed

section \<open>An administrator deleting the own account\<close>

text \<open>
  Claim C7. \<open>deleteUser\<close> with the caller's own id as the target fails with the
  \<open>ValidationError\<close> \<open>You cannot delete your own account\<close>, which the error handler
  sends as a validation error (status 400); no deletion is attempted and the store,
  with the account in it, is returned as it was.
\<close>

theorem deleteUser_self:
  "deleteUser d (Val (of_int (cu_id currentUser))) currentUser
     = (Inl (ValidationError ''You cannot delete your own account''), d)
   \<and> errorHandler (ValidationError ''You cannot delete your own account'') = (VALIDATION_ERROR, 400)"
  by (simp add: deleteUser_def trunc_of_int)

theorem deleteUser_self_witness:
  "deleteUser example_db (Val 1) \<lparr>cu_id = 1, cu_rolId = 1\<rparr>
     = (Inl (ValidationError ''You cannot delete your own account''), example_db)
   \<and> 1 \<in> set (usuarios example_db)"
  using deleteUser_self [of example_db "\<lparr>cu_id = 1, cu_rolId = 1\<rparr>"]
  by (simp add: example_defs)

section \<open>Where the code departs from the specification\<close>

text \<open>
  Claim C2 does not hold of the code: \<open>updateSaleById\<close> has no check that relates
  \<open>franquiciaId\<close> and \<open>tasa\<close> to the product. Advisor 2 changes the product of the
  own consumer credit to the credit card: the update is stored, and the stored sale is a
  credit card without franchise and with a rate. \<open>createNewSale\<close> refuses the same
  fields. On the schema of the repository's migration the call stores the same sale and
  then fails in the query that reads it again, with a database error and no validation
  error.
\<close>

theorem update_skips_conditional_validation:
  "updateSaleById example_db 1 (empty_patch\<lparr>p_productoId := Val 3\<rparr>) ROLES_ADVISOR_ID 2
     = (Inr (sale_A\<lparr>productoId := 3, updatedAt := 200\<rparr>),
        example_db\<lparr>ventas := [sale_A\<lparr>productoId := 3, updatedAt := 200\<rparr>, sale_B]\<rparr>)
   \<and> productoId (sale_A\<lparr>productoId := 3, updatedAt := 200\<rparr>) = 3
   \<and> franquiciaId (sale_A\<lparr>productoId := 3, updatedAt := 200\<rparr>) = None
   \<and> tasa (sale_A\<lparr>productoId := 3, updatedAt := 200\<rparr>) = Some (31 / 2)
   \<and> createNewSale example_db
        \<lparr>p_productoId = Val 3, p_cupoSolicitado = Val 5000000, p_franquiciaId = Null,
         p_tasa = Val (31 / 2), p_estado = Val ''Abierto''\<rparr> 2
       = (Inl (ValidationError ''Franchise is required for credit cards''), example_db)
   \<and> updateSaleById migrated_db 1 (empty_patch\<lparr>p_productoId := Val 3\<rparr>) ROLES_ADVISOR_ID 2
     = (Inl SequelizeDatabaseError,
        migrated_db\<lparr>ventas := [sale_A\<lparr>productoId := 3, updatedAt := 200\<rparr>, sale_B]\<rparr>)"
  by (simp add: write_defs example_defs to_double_examples)

theorem update_skips_conditional_validation_witness:
  "fst (updateSaleById example_db 1 (empty_patch\<lparr>p_productoId := Val 3\<rparr>) ROLES_ADVISOR_ID 2)
     = Inr (sale_A\<lparr>productoId := 3, updatedAt := 200\<rparr>)"
  using update_skips_conditional_validation by simp

text \<open>
  Claim C3 does not hold of the code: a credit card payload with an existing franchise
  and no status passes \<open>validateSaleCreate\<close>, and \<open>createNewSale\<close> then throws a
  \<open>TypeError\<close> on \<open>SALE_STATUS.OPEN\<close>, which the error handler sends as a server
  error. Nothing is stored, and the failure is no validation failure.
\<close>

theorem create_without_status_throws:
  "validateSaleCreate card_payload = Inr card_payload
   \<and> createNewSale example_db card_payload 3 = (Inl TypeError, example_db)
   \<and> POST_sales example_db card_payload \<lparr>cu_id = 3, cu_rolId = 2\<rparr> = (Inl TypeError, example_db)
   \<and> errorHandler TypeError = (SERVER_ERROR, 500)"
  by (simp add: write_defs request_defs example_defs)

theorem create_without_status_throws_witness:
  "fst (createNewSale example_db card_payload 3) = Inl TypeError"
  using create_without_status_throws by simp

text \<open>
  What does hold of \<open>createNewSale\<close>, whatever it returns: a sale it stores has, as a
  credit card, an existing franchise and no rate and, as a consumer credit or payroll, a
  rate and no franchise.
\<close>

lemma as_int_of_int: "as_int (Fin (of_int k)) = Some k"
  by (simp add: as_int_def)

lemma createNewSale_written:
  assumes "createNewSale d sd U = (res, d')" and "ventas d' \<noteq> ventas d"
  shows "\<exists>est s. Sale_create d
               \<lparr>a_productoId = parseInt (p_productoId sd),
                a_cupoSolicitado = parseFloat (p_cupoSolicitado sd),
                a_franquiciaId = (if truthy_num (p_franquiciaId sd)
                                  then Some (parseInt (p_franquiciaId sd)) else None),
                a_tasa = (if truthy_num (p_tasa sd) then Some (parseFloat (p_tasa sd)) else None),
                a_estado = est,
                a_usuarioCreadorId = U,
                a_usuarioActualizadorId = U\<rparr> = (Inr s, d')
         \<and> (parseInt (p_productoId sd) = Fin 3 \<longleftrightarrow> truthy_num (p_franquiciaId sd))
         \<and> (parseInt (p_productoId sd) = Fin 1 \<or> parseInt (p_productoId sd) = Fin 2
               \<longleftrightarrow> truthy_num (p_tasa sd))"
proof -
  have nowrite: "\<And>a e d1. Sale_create d a = (Inl e, d1) \<Longrightarrow> ventas d1 = ventas d"
    using Sale_create_cases by fastforce
  show ?thesis
    using assms unfolding createNewSale_def Let_def PRODUCTS_CONSUMER_CREDIT_ID_def
      PRODUCTS_FREE_INVESTMENT_PAYROLL_ID_def PRODUCTS_CREDIT_CARD_ID_def
    by (simp split: if_splits option.splits prod.splits sum.splits)
      (cases "p_tasa sd"; fastforce dest: nowrite)+
qed


lemma Sale_create_fields:
  "Sale_create d a = (Inr s, d') \<Longrightarrow>
     as_int (a_productoId a) = Some (productoId s)
     \<and> (case a_franquiciaId a of None \<Rightarrow> franquiciaId s = None
         | Some v \<Rightarrow> \<exists>f. as_int v = Some f \<and> franquiciaId s = Some f \<and> f \<in> set (franquicias d))
     \<and> (case a_tasa a of None \<Rightarrow> tasa s = None | Some v \<Rightarrow> tasa s \<noteq> None)
     \<and> ventas d' = ventas d @ [s]"
  by (auto simp: Sale_create_def Let_def split: if_splits option.splits jsnum.splits prod.splits)
    metis+

lemma createNewSale_conditional_fields:
  assumes "createNewSale d sd U = (res, d')"
  shows "ventas d' = ventas d
       \<or> (\<exists>s. ventas d' = ventas d @ [s]
            \<and> (productoId s = 3 \<longrightarrow>
                 (\<exists>f. franquiciaId s = Some f \<and> f \<in> set (franquicias d)) \<and> tasa s = None)
            \<and> (productoId s = 1 \<or> productoId s = 2 \<longrightarrow>
                 tasa s \<noteq> None \<and> franquiciaId s = None))"
proof (cases "ventas d' = ventas d")
  case True
  then show ?thesis by simp
next
  case False
  from createNewSale_written [OF assms False] obtain est s where
    cr: "Sale_create d
               \<lparr>a_productoId = parseInt (p_productoId sd),
                a_cupoSolicitado = parseFloat (p_cupoSolicitado sd),
                a_franquiciaId = (if truthy_num (p_franquiciaId sd)
                                  then Some (parseInt (p_franquiciaId sd)) else None),
                a_tasa = (if truthy_num (p_tasa sd) then Some (parseFloat (p_tasa sd)) else None),
                a_estado = est,
                a_usuarioCreadorId = U,
                a_usuarioActualizadorId = U\<rparr> = (Inr s, d')"
    and f: "parseInt (p_productoId sd) = Fin 3 \<longleftrightarrow> truthy_num (p_franquiciaId sd)"
    and t: "parseInt (p_productoId sd) = Fin 1 \<or> parseInt (p_productoId sd) = Fin 2
               \<longleftrightarrow> truthy_num (p_tasa sd)"
    by blast
  from Sale_create_fields [OF cr]
  have pid: "as_int (parseInt (p_productoId sd)) = Some (productoId s)"
    and fr: "(if truthy_num (p_franquiciaId sd)
          then \<exists>f. franquiciaId s = Some f \<and> f \<in> set (franquicias d)
          else franquiciaId s = None)"
    and ta: "(if truthy_num (p_tasa sd) then tasa s \<noteq> None else tasa s = None)"
    and v: "ventas d' = ventas d @ [s]"
    by (auto split: if_splits)
  have pk: "parseInt (p_productoId sd) = Fin (of_int (productoId s))"
    using pid by (auto simp: as_int_def split: jsnum.splits if_splits)
  have "productoId s = 3 \<longrightarrow>
          (\<exists>f. franquiciaId s = Some f \<and> f \<in> set (franquicias d)) \<and> tasa s = None"
    using pk f fr t ta by auto
  moreover have "productoId s = 1 \<or> productoId s = 2 \<longrightarrow> tasa s \<noteq> None \<and> franquiciaId s = None"
    using pk f fr t ta by auto
  ultimately show ?thesis using v by blast
qed

text \<open>
  Claim C4 does not hold of the code at rate 0: \<open>validateSaleCreate\<close> accepts the
  payload, and \<open>createNewSale\<close> then tests the rate with \<open>!tasa\<close>, which is true of
  the number 0, and throws the \<open>ValidationError\<close> of a missing rate, for both products
  with a rate.
\<close>

theorem rate_zero_rejected:
  "validateSaleCreate (rate_payload 1 0) = Inr (rate_payload 1 0)
   \<and> POST_sales example_db (rate_payload 1 0) \<lparr>cu_id = 2, cu_rolId = 2\<rparr>
       = (Inl (ValidationError ''Rate is required for credits and payrolls''), example_db)
   \<and> POST_sales example_db (rate_payload 2 0) \<lparr>cu_id = 2, cu_rolId = 2\<rparr>
       = (Inl (ValidationError ''Rate is required for credits and payrolls''), example_db)"
  by (simp add: write_defs request_defs example_defs)

theorem rate_zero_rejected_witness:
  "fst (POST_sales example_db (rate_payload 1 0) \<lparr>cu_id = 2, cu_rolId = 2\<rparr>)
     = Inl (ValidationError ''Rate is required for credits and payrolls'')"
  using rate_zero_rejected by simp

text \<open>
  The other three boundary values behave as the specification says: rate 100 is stored,
  100.01 and -0.01 are refused by \<open>validateSaleCreate\<close> and, without it, by the model's
  validators.
\<close>

lemma other_rate_boundaries:
  "fst (POST_sales example_db (rate_payload 1 100) \<lparr>cu_id = 2, cu_rolId = 2\<rparr>)
       = Inr \<lparr>sale_id = 3, productoId = 1, cupoSolicitado = 1000, franquiciaId = None,
              tasa = Some 100, estado = ''Abierto'', usuarioCreadorId = 2,
              usuarioActualizadorId = 2, createdAt = 200, updatedAt = 200\<rparr>
   \<and> POST_sales example_db (rate_payload 1 (10001 / 100)) \<lparr>cu_id = 2, cu_rolId = 2\<rparr>
       = (Inl (ValidationError ''Validation failed''), example_db)
   \<and> POST_sales example_db (rate_payload 1 (- 1 / 100)) \<lparr>cu_id = 2, cu_rolId = 2\<rparr>
       = (Inl (ValidationError ''Validation failed''), example_db)
   \<and> createNewSale example_db (rate_payload 1 (10001 / 100)) 2
       = (Inl SequelizeValidationError, example_db)
   \<and> createNewSale example_db (rate_payload 1 (- 1 / 100)) 2
       = (Inl SequelizeValidationError, example_db)"
  by (simp add: write_defs request_defs example_defs to_double_examples DECIMAL_examples)

text \<open>
  On the schema of the repository's migration every call of \<open>findAllSales\<close> fails.
\<close>

lemma migrated_schema_breaks_the_reads:
  "findAllSales (d\<lparr>producto_columns := productos_tipos_columns\<rparr>) fs userRolId userId pg
     = Inl SequelizeDatabaseError"
  by (simp add: findAllSales_def Sale_findAndCountAll_def include_producto_def
      productos_tipos_columns_def Let_def)

end
